theory Spec2Isabelle
  imports Complex_Main "HOL-Library.Word" "HOL-Library.Char_ord" "HOL-Library.List_Lexorder"
begin

unbundle bit_operations_syntax

section \<open>The fingerprint engine of \<^verbatim>\<open>backend/dna_utils.py\<close>\<close>

text \<open>
  A Python \<^verbatim>\<open>str\<close> is a list of characters, each one code point. Here a character is a HOL
  \<^typ>\<open>char\<close>, standing for the code point \<open>of_char c\<close> in 0..255, so the strings of the
  model are the Python strings whose code points are all below 256, and \<open>length\<close> is
  Python's \<^verbatim>\<open>len\<close>.
\<close>

subsection \<open>Values and exceptions\<close>

text \<open>
  \<^verbatim>\<open>validate_dna\<close> tests \<^verbatim>\<open>isinstance(dna, str)\<close>, so its argument ranges over Python
  values of any kind.
\<close>

datatype pyval =
    PyNone
  | PyBool bool
  | PyInt int
  | PyStr string
  | PyList "pyval list"

datatype py_error =
    ValueError string
  | IndexError string
  | TypeError string
  | RecursionError string

subsection \<open>\<^verbatim>\<open>int(s, 16)\<close>\<close>

text \<open>
  \<^verbatim>\<open>int(dna, 16)\<close> on a string is CPython's \<^verbatim>\<open>PyLong_FromString\<close> with base 16: leading
  whitespace is skipped, then one optional sign, then an optional \<^verbatim>\<open>0x\<close> or \<^verbatim>\<open>0X\<close>
  (after which one underscore may stand), then the digits, where single underscores may
  separate digits, then trailing whitespace; anything else raises \<^verbatim>\<open>ValueError\<close>.
  The whitespace it skips is tab, line feed, vertical tab, form feed, carriage return
  and space, and, below 256, the two non-ASCII spaces U+0085 and U+00A0, which the
  conversion to ASCII turns into a space first.
\<close>

definition py_isspace :: "char \<Rightarrow> bool" where
  "py_isspace c \<longleftrightarrow>
     c \<in> set [CHR 0x09, CHR 0x0A, CHR 0x0B, CHR 0x0C, CHR 0x0D, CHR 0x20, CHR 0x85, CHR 0xA0]"

definition is_digit16 :: "char \<Rightarrow> bool" where
  "is_digit16 c \<longleftrightarrow> c \<in> set ''0123456789abcdefABCDEF''"

fun skip_sign :: "string \<Rightarrow> string" where
  "skip_sign [] = []"
| "skip_sign (c # cs) = (if c = CHR ''+'' \<or> c = CHR ''-'' then cs else c # cs)"

fun skip_prefix16 :: "string \<Rightarrow> string" where
  "skip_prefix16 (a # b # cs) =
     (if a = CHR ''0'' \<and> (b = CHR ''x'' \<or> b = CHR ''X'')
      then (case cs of [] \<Rightarrow> [] | d # ds \<Rightarrow> if d = CHR ''_'' then ds else d # ds)
      else a # b # cs)"
| "skip_prefix16 cs = cs"

text \<open>
  The digit loop: the flag says that the previous character was an underscore. The
  result is what is left after the digits, or \<open>None\<close> for two underscores in a row or
  an underscore at the end of the digits.
\<close>

fun scan16 :: "bool \<Rightarrow> string \<Rightarrow> string option" where
  "scan16 prev_us [] = (if prev_us then None else Some [])"
| "scan16 prev_us (c # cs) =
     (if c = CHR ''_'' then (if prev_us then None else scan16 True cs)
      else if is_digit16 c then scan16 False cs
      else if prev_us then None else Some (c # cs))"

text \<open>\<open>py_int16_ok s\<close>: \<^verbatim>\<open>int(s, 16)\<close> returns, that is, does not raise \<^verbatim>\<open>ValueError\<close>.\<close>

definition py_int16_ok :: "string \<Rightarrow> bool" where
  "py_int16_ok s =
     (let body = skip_prefix16 (skip_sign (dropWhile py_isspace s)) in
      case body of
        [] \<Rightarrow> False
      | c # _ \<Rightarrow>
          if c = CHR ''_'' then False
          else (case scan16 False body of
                  None \<Rightarrow> False
                | Some rest \<Rightarrow> length rest < length body \<and> dropWhile py_isspace rest = []))"

subsection \<open>\<^verbatim>\<open>validate_dna\<close>\<close>

fun validate_dna :: "pyval \<Rightarrow> bool" where
  "validate_dna (PyStr dna) = (if length dna \<noteq> 64 then False else py_int16_ok dna)"
| "validate_dna _ = False"

text \<open>The format the documentation means: 64 characters, each one of \<^verbatim>\<open>0-9a-f\<close>.\<close>

definition is_lower_hex :: "char \<Rightarrow> bool" where
  "is_lower_hex c \<longleftrightarrow> c \<in> set ''0123456789abcdef''"

definition well_formed_dna :: "string \<Rightarrow> bool" where
  "well_formed_dna s \<longleftrightarrow> length s = 64 \<and> list_all is_lower_hex s"


subsection \<open>\<^verbatim>\<open>remix_dna\<close>\<close>

text \<open>
  The slices \<^verbatim>\<open>s[:k]\<close> and \<^verbatim>\<open>s[k:]\<close> of Python; a negative \<open>k\<close> counts from the end.
\<close>

definition py_slice_to :: "string \<Rightarrow> int \<Rightarrow> string" where
  "py_slice_to s k = (if k < 0 then take (length s - nat (- k)) s else take (nat k) s)"

definition py_slice_from :: "string \<Rightarrow> int \<Rightarrow> string" where
  "py_slice_from s k = (if k < 0 then drop (length s - nat (- k)) s else drop (nat k) s)"

text \<open>
  The string inside a value. It is read only after \<^verbatim>\<open>validate_dna\<close> has accepted the
  value, which it does for strings alone.
\<close>

fun str_of :: "pyval \<Rightarrow> string" where
  "str_of (PyStr s) = s"
| "str_of _ = []"

definition remix_dna :: "pyval \<Rightarrow> pyval \<Rightarrow> int \<Rightarrow> py_error + string" where
  "remix_dna dna_a dna_b crossover_point =
     (if \<not> validate_dna dna_a \<or> \<not> validate_dna dna_b
      then Inl (ValueError ''Invalid DNA format'')
      else
        let crossover_point =
              (if crossover_point < 1 \<or> crossover_point \<ge> 64 then 32 else crossover_point);
            remixed = py_slice_to (str_of dna_a) crossover_point
                      @ py_slice_from (str_of dna_b) crossover_point
        in Inr remixed)"

subsection \<open>\<^verbatim>\<open>mutate_dna\<close>\<close>

text \<open>
  A Python \<^verbatim>\<open>float\<close> is a rational number (every finite double is one), the negative
  zero, an infinity or a NaN; \<open>Finite 0\<close> is the zero \<^verbatim>\<open>0.0\<close> and \<open>NegZero\<close> the zero
  \<^verbatim>\<open>-0.0\<close>, which compare equal and are written differently.
\<close>

datatype pyfloat = Finite rat | NegZero | PosInf | NegInf | NaN

text \<open>\<open>float_lt u x\<close> is the comparison \<^verbatim>\<open>u < x\<close> of a finite \<open>u\<close> with a float.\<close>

fun float_lt :: "rat \<Rightarrow> pyfloat \<Rightarrow> bool" where
  "float_lt u (Finite r) = (u < r)"
| "float_lt u NegZero = (u < 0)"
| "float_lt u PosInf = True"
| "float_lt u NegInf = False"
| "float_lt u NaN = False"

text \<open>
  The random source is a state \<open>'s\<close> with the two draws the function makes:
  \<^verbatim>\<open>random.random()\<close>, which returns \<open>k / 2^53\<close> for a 53-bit \<open>k\<close>, so a value in
  \<open>[0, 1)\<close>, and \<^verbatim>\<open>random.choice(hex_chars)\<close>, which returns the character at an index
  below 16. Each draw returns the outcome and the next state; nothing is assumed about
  how the outcomes are chosen.
\<close>

definition random_value :: "53 word \<Rightarrow> rat" where
  "random_value k = of_nat (unat k) / 2 ^ 53"

definition hex_chars :: string where
  "hex_chars = ''0123456789abcdef''"

fun mutate_loop ::
  "('s \<Rightarrow> 53 word \<times> 's) \<Rightarrow> ('s \<Rightarrow> 4 word \<times> 's) \<Rightarrow> pyfloat \<Rightarrow> string \<Rightarrow> 's \<Rightarrow> string \<times> 's"
where
  "mutate_loop random choice mutation_rate [] s = ([], s)"
| "mutate_loop random choice mutation_rate (c # cs) s =
     (let (u, s1) = random s in
      if float_lt (random_value u) mutation_rate
      then let (i, s2) = choice s1;
               (rest, s3) = mutate_loop random choice mutation_rate cs s2
           in (hex_chars ! unat i # rest, s3)
      else let (rest, s3) = mutate_loop random choice mutation_rate cs s1
           in (c # rest, s3))"

definition mutate_dna ::
  "('s \<Rightarrow> 53 word \<times> 's) \<Rightarrow> ('s \<Rightarrow> 4 word \<times> 's) \<Rightarrow> pyval \<Rightarrow> pyfloat \<Rightarrow> 's
     \<Rightarrow> py_error + (string \<times> 's)"
where
  "mutate_dna random choice dna mutation_rate s =
     (if \<not> validate_dna dna then Inl (ValueError ''Invalid DNA format'')
      else Inr (mutate_loop random choice mutation_rate (str_of dna) s))"

subsection \<open>\<^verbatim>\<open>json.dumps(data, sort_keys=True)\<close>\<close>

text \<open>
  The values \<^verbatim>\<open>json.dumps\<close> is given: \<^verbatim>\<open>None\<close>, booleans, ints, floats, strings, lists,
  dicts with string keys (a dict is the list of its items in insertion order), and
  \<open>JOther t\<close> for a value of any other type \<open>t\<close> (a set, bytes, an object of a class), which
  \<^verbatim>\<open>json.dumps\<close> cannot serialise.
\<close>

datatype json =
    JNull
  | JBool bool
  | JInt int
  | JFloat pyfloat
  | JStr string
  | JList "json list"
  | JDict "(string \<times> json) list"
  | JOther string

text \<open>
  An int is written in decimal, as \<^verbatim>\<open>int.__repr__\<close> does. The conversion raises
  \<^verbatim>\<open>ValueError\<close> for an int of more than \<^verbatim>\<open>sys.get_int_max_str_digits()\<close> digits, 4300 by
  default (Python 3.11).
\<close>

definition int_max_str_digits :: nat where
  "int_max_str_digits = 4300"

fun digits10 :: "nat \<Rightarrow> string" where
  "digits10 n =
     (if n < 10 then [''0123456789'' ! n]
      else digits10 (n div 10) @ [''0123456789'' ! (n mod 10)])"

declare digits10.simps [simp del]

definition int_repr :: "int \<Rightarrow> py_error + string" where
  "int_repr i =
     (if 10 ^ int_max_str_digits \<le> \<bar>i\<bar>
      then Inl (ValueError (''Exceeds the limit (4300 digits) for integer string conversion; ''
                            @ ''use sys.set_int_max_str_digits() to increase the limit''))
      else Inr (if i < 0 then CHR ''-'' # digits10 (nat (- i)) else digits10 (nat i)))"

text \<open>
  A float is written by \<^verbatim>\<open>float.__repr__\<close>, the shortest decimal string that reads back
  as the same double; for the doubles that are not zero it is a parameter \<open>float_repr\<close> of
  the model. The two zeros and the values that are not finite have fixed names.
\<close>

fun json_float :: "(rat \<Rightarrow> string) \<Rightarrow> pyfloat \<Rightarrow> string" where
  "json_float float_repr (Finite r) = (if r = 0 then ''0.0'' else float_repr r)"
| "json_float float_repr NegZero = ''-0.0''"
| "json_float float_repr PosInf = ''Infinity''"
| "json_float float_repr NegInf = ''-Infinity''"
| "json_float float_repr NaN = ''NaN''"

text \<open>
  A string is written between double quotes by \<^verbatim>\<open>encode_basestring_ascii\<close>: the quote, the
  backslash and the control characters with a short name are escaped with a backslash,
  every other character outside \<^verbatim>\<open>' '..'~'\<close> as \<^verbatim>\<open>\uXXXX\<close>.
\<close>

definition hex4 :: "nat \<Rightarrow> string" where
  "hex4 n = map (\<lambda>k. hex_chars ! ((n div 16 ^ k) mod 16)) [3, 2, 1, 0]"

definition json_escape_char :: "char \<Rightarrow> string" where
  "json_escape_char c =
     (if c = CHR 0x22 then [CHR 0x5C, CHR 0x22]
      else if c = CHR 0x5C then [CHR 0x5C, CHR 0x5C]
      else if c = CHR 0x0A then [CHR 0x5C, CHR ''n'']
      else if c = CHR 0x0D then [CHR 0x5C, CHR ''r'']
      else if c = CHR 0x09 then [CHR 0x5C, CHR ''t'']
      else if c = CHR 0x08 then [CHR 0x5C, CHR ''b'']
      else if c = CHR 0x0C then [CHR 0x5C, CHR ''f'']
      else if 0x20 \<le> (of_char c :: nat) \<and> (of_char c :: nat) \<le> 0x7E then [c]
      else [CHR 0x5C, CHR ''u''] @ hex4 (of_char c))"

definition encode_basestring_ascii :: "string \<Rightarrow> string" where
  "encode_basestring_ascii s = [CHR 0x22] @ concat (map json_escape_char s) @ [CHR 0x22]"

text \<open>\<^verbatim>\<open>sep.join(xs)\<close>\<close>

fun join :: "string \<Rightarrow> string list \<Rightarrow> string" where
  "join sep [] = []"
| "join sep [x] = x"
| "join sep (x # y # ys) = x @ sep @ join sep (y # ys)"

text \<open>The results of a sequence of steps: the first exception ends the sequence.\<close>

fun collect :: "(py_error + 'a) list \<Rightarrow> py_error + 'a list" where
  "collect [] = Inr []"
| "collect (Inl e # rs) = Inl e"
| "collect (Inr x # rs) = (case collect rs of Inl e \<Rightarrow> Inl e | Inr xs \<Rightarrow> Inr (x # xs))"

text \<open>
  The encoder. With \<^verbatim>\<open>sort_keys=True\<close> the items of every dict are sorted by key before
  they are written; strings compare by code point, character by character. The
  separators are the default ones, \<^verbatim>\<open>', '\<close> and \<^verbatim>\<open>': '\<close>. The encoder calls itself for
  every list and dict inside another, and raises \<^verbatim>\<open>RecursionError\<close> when the interpreter's
  recursion limit is reached: \<open>depth\<close> is the number of lists and dicts, one inside the
  other, that the limit still allows.
\<close>

function json_encode :: "(rat \<Rightarrow> string) \<Rightarrow> nat \<Rightarrow> json \<Rightarrow> py_error + string" where
  "json_encode float_repr depth JNull = Inr ''null''"
| "json_encode float_repr depth (JBool b) = Inr (if b then ''true'' else ''false'')"
| "json_encode float_repr depth (JInt i) = int_repr i"
| "json_encode float_repr depth (JFloat f) = Inr (json_float float_repr f)"
| "json_encode float_repr depth (JStr s) = Inr (encode_basestring_ascii s)"
| "json_encode float_repr depth (JList xs) =
     (if depth = 0
      then Inl (RecursionError ''maximum recursion depth exceeded while encoding a JSON object'')
      else case collect (map (json_encode float_repr (depth - 1)) xs) of
             Inl e \<Rightarrow> Inl e
           | Inr parts \<Rightarrow> Inr (''['' @ join '', '' parts @ '']''))"
| "json_encode float_repr depth (JDict items) =
     (if depth = 0
      then Inl (RecursionError ''maximum recursion depth exceeded while encoding a JSON object'')
      else case collect
                  (map (\<lambda>kv. case json_encode float_repr (depth - 1) (snd kv) of
                                Inl e \<Rightarrow> Inl e
                              | Inr v \<Rightarrow> Inr (encode_basestring_ascii (fst kv) @ '': '' @ v))
                       (sort_key fst items)) of
             Inl e \<Rightarrow> Inl e
           | Inr parts \<Rightarrow> Inr (''{'' @ join '', '' parts @ ''}''))"
| "json_encode float_repr depth (JOther t) =
     Inl (TypeError (''Object of type '' @ t @ '' is not JSON serializable''))"
  by pat_completeness auto
termination
proof (relation "measure (\<lambda>(r, d, j). size j)")
  show "wf (measure (\<lambda>(r, d, j). size j))" by simp
next
  fix float_repr :: "rat \<Rightarrow> string" and depth :: nat and xs :: "json list" and x :: json
  assume "x \<in> set xs"
  then have "size x < size (JList xs)"
    by (induction xs) auto
  then show "((float_repr, depth - 1, x), (float_repr, depth, JList xs))
               \<in> measure (\<lambda>(r, d, j). size j)"
    by simp
next
  fix float_repr :: "rat \<Rightarrow> string" and depth :: nat and items :: "(string \<times> json) list"
    and kv :: "string \<times> json"
  assume "kv \<in> set (sort_key fst items)"
  then have "kv \<in> set items" by simp
  then have "size (snd kv) < size (JDict items)"
    by (induction items) auto
  then show "((float_repr, depth - 1, snd kv), (float_repr, depth, JDict items))
               \<in> measure (\<lambda>(r, d, j). size j)"
    by simp
qed

text \<open>
  \<^verbatim>\<open>json.dumps\<close> itself: the value it is given is the outermost one, and \<open>depth\<close> counts
  the lists and dicts that the recursion limit allows inside it.
\<close>

definition json_dumps :: "(rat \<Rightarrow> string) \<Rightarrow> nat \<Rightarrow> json \<Rightarrow> py_error + string" where
  "json_dumps float_repr depth obj = json_encode float_repr (Suc depth) obj"

text \<open>
  \<open>json_serializable depth obj\<close>: the encoder has nothing to raise on \<open>obj\<close>, which holds no
  value of another type and no int of more than 4300 digits, and nests lists and dicts
  at most \<open>depth\<close> deep.
\<close>

function json_serializable :: "nat \<Rightarrow> json \<Rightarrow> bool" where
  "json_serializable depth JNull = True"
| "json_serializable depth (JBool b) = True"
| "json_serializable depth (JInt i) = (\<bar>i\<bar> < 10 ^ int_max_str_digits)"
| "json_serializable depth (JFloat f) = True"
| "json_serializable depth (JStr s) = True"
| "json_serializable depth (JList xs) =
     (0 < depth \<and> list_all (json_serializable (depth - 1)) xs)"
| "json_serializable depth (JDict items) =
     (0 < depth \<and> list_all (\<lambda>kv. json_serializable (depth - 1) (snd kv)) items)"
| "json_serializable depth (JOther t) = False"
  by pat_completeness auto
termination
proof (relation "measure (\<lambda>(d, j). size j)")
  show "wf (measure (\<lambda>(d, j). size j))" by simp
next
  fix depth :: nat and xs :: "json list" and x :: json
  assume "x \<in> set xs"
  then have "size x < size (JList xs)"
    by (induction xs) auto
  then show "((depth - 1, x), (depth, JList xs)) \<in> measure (\<lambda>(d, j). size j)"
    by simp
next
  fix depth :: nat and items :: "(string \<times> json) list" and kv :: "string \<times> json"
  assume "kv \<in> set items"
  then have "size (snd kv) < size (JDict items)"
    by (induction items) auto
  then show "((depth - 1, snd kv), (depth, JDict items)) \<in> measure (\<lambda>(d, j). size j)"
    by simp
qed

subsection \<open>Hashing\<close>

text \<open>
  \<^verbatim>\<open>json_str.encode()\<close> is the UTF-8 encoding: one byte for a code point below 128, two
  bytes for the others below 256.
\<close>

definition utf8_encode :: "string \<Rightarrow> 8 word list" where
  "utf8_encode s =
     concat (map (\<lambda>c. let n = (of_char c :: nat) in
                        if n < 128 then [of_nat n]
                        else [of_nat (192 + n div 64), of_nat (128 + n mod 64)]) s)"

text \<open>
  \<^verbatim>\<open>hashlib.sha256\<close> maps bytes to a digest of 256 bits; it is a parameter \<open>sha256\<close> of the
  model. \<^verbatim>\<open>hexdigest()\<close> writes the digest as 64 hexadecimal digits, the most significant
  four bits first.
\<close>

definition hexdigest :: "256 word \<Rightarrow> string" where
  "hexdigest h = map (\<lambda>i. hex_chars ! unat (ucast (drop_bit (4 * (63 - i)) h) :: 4 word)) [0..<64]"

subsection \<open>\<^verbatim>\<open>generate_dna\<close> and \<^verbatim>\<open>generate_persona_dna\<close>\<close>

text \<open>An exception of \<^verbatim>\<open>json.dumps\<close> is not caught: it is what the caller gets.\<close>

definition generate_dna ::
  "(8 word list \<Rightarrow> 256 word) \<Rightarrow> (rat \<Rightarrow> string) \<Rightarrow> nat
     \<Rightarrow> string \<Rightarrow> pyfloat \<Rightarrow> pyfloat \<Rightarrow> string \<Rightarrow> py_error + string"
where
  "generate_dna sha256 float_repr depth prompt temperature top_p model =
     (let data = JDict [(''prompt'', JStr prompt),
                        (''temperature'', JFloat temperature),
                        (''top_p'', JFloat top_p),
                        (''model'', JStr model),
                        (''version'', JStr ''1.0'')]
      in case json_dumps float_repr depth data of
           Inl e \<Rightarrow> Inl e
         | Inr json_str \<Rightarrow>
             let hash_hex = hexdigest (sha256 (utf8_encode json_str));
                 dna = take 64 hash_hex
             in Inr dna)"

definition generate_persona_dna ::
  "(8 word list \<Rightarrow> 256 word) \<Rightarrow> (rat \<Rightarrow> string) \<Rightarrow> nat
     \<Rightarrow> string \<Rightarrow> (string \<times> json) list \<Rightarrow> py_error + string"
where
  "generate_persona_dna sha256 float_repr depth persona_name traits =
     (let data = JDict [(''persona'', JStr persona_name),
                        (''traits'', JDict traits),
                        (''type'', JStr ''persona_dna''),
                        (''version'', JStr ''1.0'')]
      in case json_dumps float_repr depth data of
           Inl e \<Rightarrow> Inl e
         | Inr json_str \<Rightarrow> Inr (take 64 (hexdigest (sha256 (utf8_encode json_str)))))"

subsection \<open>Floating-point arithmetic\<close>

text \<open>
  The result of an arithmetic operation on doubles is the exact result, rounded to the
  nearest double, to the one with an even significand when two are equally near. The
  values of this module lie between \<open>2^-4\<close> and \<open>2^7\<close> or are zero, so the bounds on a
  double's exponent play no role and are not modelled.
\<close>

text \<open>\<^verbatim>\<open>n.bit_length()\<close>: the number of binary digits of a positive \<open>n\<close>.\<close>

function bit_length :: "int \<Rightarrow> nat" where
  "bit_length n = (if n \<le> 0 then 0 else Suc (bit_length (n div 2)))"
  by pat_completeness auto
termination
  by (relation "measure nat") auto

declare bit_length.simps [simp del]

definition pow2 :: "int \<Rightarrow> rat" where
  "pow2 e = (if 0 \<le> e then 2 ^ nat e else 1 / 2 ^ nat (- e))"

definition round_half_even :: "rat \<Rightarrow> int" where
  "round_half_even x =
     (let f = \<lfloor>x\<rfloor>; r = x - of_int f in
      if r < 1 / 2 then f else if 1 / 2 < r then f + 1 else if even f then f else f + 1)"

text \<open>\<open>binade x\<close>, for a positive \<open>x\<close>, is the exponent \<open>e\<close> with \<open>2^e \<le> x < 2^(e+1)\<close>.\<close>

definition binade :: "rat \<Rightarrow> int" where
  "binade x =
     (if 1 \<le> x then int (bit_length \<lfloor>x\<rfloor>) - 1
      else - int (bit_length (\<lceil>1 / x\<rceil> - 1)))"

text \<open>\<open>fl x\<close> is the double nearest to \<open>x\<close>: a multiple of \<open>2^(e-52)\<close>, where \<open>e\<close> is the binade of \<open>\<bar>x\<bar>\<close>.\<close>

definition fl :: "rat \<Rightarrow> rat" where
  "fl x =
     (if x = 0 then 0
      else let a = \<bar>x\<bar>; ulp = pow2 (binade a - 52)
           in sgn x * of_int (round_half_even (a / ulp)) * ulp)"

text \<open>
  \<^verbatim>\<open>round(x, ndigits)\<close> of a double rounds its exact value to \<open>ndigits\<close> decimals, half to
  even, and returns the double nearest to that decimal number.
\<close>

definition py_round :: "rat \<Rightarrow> nat \<Rightarrow> rat" where
  "py_round x ndigits = fl (of_int (round_half_even (x * 10 ^ ndigits)) / 10 ^ ndigits)"

subsection \<open>\<^verbatim>\<open>decode_dna\<close>\<close>

text \<open>The dict that \<^verbatim>\<open>decode_dna\<close> returns, one field for each key.\<close>

record estimate =
  e_temperature :: rat
  e_top_p :: rat
  e_model :: string
  e_dna :: string
  e_note :: string

definition model_map :: "(char \<times> string) list" where
  "model_map =
     [(CHR ''0'', ''dolphin-phi:latest''),
      (CHR ''1'', ''llama2:latest''),
      (CHR ''2'', ''mistral:latest''),
      (CHR ''3'', ''gpt-4'')]"

text \<open>
  The sum of the character codes never raises on a string; \<^verbatim>\<open>dna[0]\<close> raises \<^verbatim>\<open>IndexError\<close>
  on the empty string. The literal \<^verbatim>\<open>0.1\<close> is the double nearest to one tenth, and the
  product and the sum are rounded each.
\<close>

definition decode_dna :: "string \<Rightarrow> py_error + estimate" where
  "decode_dna dna =
     (let char_sum = sum_list (map (\<lambda>c. of_char c :: int) dna);
          temp = fl (fl (1 / 10) + fl (of_int (char_sum mod 20) * fl (1 / 10)));
          top_p = fl (fl (1 / 10) + fl (of_int (char_sum mod 9) * fl (1 / 10)))
      in case dna of
           [] \<Rightarrow> Inl (IndexError ''string index out of range'')
         | c # _ \<Rightarrow>
             Inr \<lparr>e_temperature = py_round temp 1,
                  e_top_p = py_round top_p 1,
                  e_model = (case map_of model_map c of
                               None \<Rightarrow> ''dolphin-phi:latest''
                             | Some model \<Rightarrow> model),
                  e_dna = dna,
                  e_note = ''Parameters estimated from DNA pattern''\<rparr>)"


subsection \<open>\<^verbatim>\<open>analyze_dna_compatibility\<close>\<close>









section \<open>Properties of \<^verbatim>\<open>validate_dna\<close>\<close>

lemma lower_hex_digit16: "is_lower_hex c \<Longrightarrow> is_digit16 c"
  unfolding is_lower_hex_def is_digit16_def by (simp, elim disjE, simp_all)

lemma lower_hex_not_space: "is_lower_hex c \<Longrightarrow> \<not> py_isspace c"
  unfolding is_lower_hex_def py_isspace_def by (simp, elim disjE, simp_all)

lemma lower_hex_not_special:
  "is_lower_hex c \<Longrightarrow>
     c \<noteq> CHR ''_'' \<and> c \<noteq> CHR ''+'' \<and> c \<noteq> CHR ''-'' \<and> c \<noteq> CHR ''x'' \<and> c \<noteq> CHR ''X''"
  unfolding is_lower_hex_def by (simp, elim disjE, simp_all)

lemma scan16_lower_hex: "list_all is_lower_hex s \<Longrightarrow> scan16 False s = Some []"
  by (induction s) (simp_all add: lower_hex_digit16 lower_hex_not_special)

lemma skip_prefix16_lower_hex: "list_all is_lower_hex s \<Longrightarrow> skip_prefix16 s = s"
  by (cases s rule: skip_prefix16.cases) (simp_all add: lower_hex_not_special)

lemma py_int16_ok_lower_hex:
  assumes "list_all is_lower_hex s" "s \<noteq> []"
  shows "py_int16_ok s"
proof -
  obtain c cs where s: "s = c # cs" using assms(2) by (cases s) auto
  have c: "is_lower_hex c" using assms(1) s by simp
  have 1: "dropWhile py_isspace s = s" using c s by (simp add: lower_hex_not_space)
  have 2: "skip_sign s = s" using s lower_hex_not_special[OF c] by simp
  have 3: "skip_prefix16 s = s" by (rule skip_prefix16_lower_hex[OF assms(1)])
  have 4: "scan16 False s = Some []" by (rule scan16_lower_hex[OF assms(1)])
  have "py_int16_ok s = (case s of [] \<Rightarrow> False | c # _ \<Rightarrow> c \<noteq> CHR ''_'')"
    by (simp add: py_int16_ok_def 1 2 3 4 assms(2) split: list.split)
  then show ?thesis using s lower_hex_not_special[OF c] by simp
qed

text \<open>Every identifier of the documented format is accepted.\<close>

lemma validate_well_formed: "well_formed_dna s \<Longrightarrow> validate_dna (PyStr s)"
  by (auto simp: well_formed_dna_def intro!: py_int16_ok_lower_hex)

text \<open>What is accepted is a string of 64 characters; on every other value the answer is \<open>False\<close>.\<close>

lemma validate_dna_str64: "validate_dna x \<Longrightarrow> \<exists>s. x = PyStr s \<and> length s = 64"
  by (cases x) (simp_all split: if_splits)

text \<open>
  C3. The claim: \<^verbatim>\<open>validate\<close> returns true if and only if its argument is a string of
  exactly 64 characters, each a hexadecimal digit \<^verbatim>\<open>0-9a-f\<close>. The code accepts more: the
  64-character string that starts with \<^verbatim>\<open>0x\<close> and goes on with 62 zeros is accepted,
  because \<^verbatim>\<open>int(dna, 16)\<close> reads \<^verbatim>\<open>0x\<close> as the base prefix, although \<^verbatim>\<open>x\<close> is no
  hexadecimal digit.
\<close>

theorem validate_dna_accepts_0x_prefix:
  "validate_dna (PyStr ''0x00000000000000000000000000000000000000000000000000000000000000'')
   \<and> \<not> well_formed_dna ''0x00000000000000000000000000000000000000000000000000000000000000''"
  by code_simp


section \<open>Properties of \<^verbatim>\<open>remix_dna\<close>\<close>

lemma remix_dna_valid:
  assumes "validate_dna (PyStr a)" "validate_dna (PyStr b)"
  shows "remix_dna (PyStr a) (PyStr b) c =
           Inr (take (if c < 1 \<or> 64 \<le> c then 32 else nat c) a
                @ drop (if c < 1 \<or> 64 \<le> c then 32 else nat c) b)"
  using assms
  by (simp add: remix_dna_def py_slice_to_def py_slice_from_def Let_def del: validate_dna.simps)

lemma valid_length: "validate_dna (PyStr a) \<Longrightarrow> length a = 64"
  by (simp split: if_splits)

lemma splice_nth:
  assumes "n \<le> length a" "length a = length b" "i < length a"
  shows "(take n a @ drop n b) ! i = (if i < n then a ! i else b ! i)"
  using assms by (simp add: nth_append min_def)

text \<open>
  C4. For identifiers \<open>a\<close> and \<open>b\<close> that pass \<^verbatim>\<open>validate_dna\<close>: with a crossover point
  in \<open>[1, 63]\<close> the result is the first \<open>crossover_point\<close> characters of \<open>a\<close> followed by the
  characters of \<open>b\<close> from position \<open>crossover_point\<close> through 63, a string of 64 characters
  that agrees with \<open>a\<close> before the crossover point and with \<open>b\<close> from it on; with any other
  crossover point the result is that of crossover point 32.
\<close>

theorem remix_dna_crossover:
  assumes "validate_dna (PyStr a)" "validate_dna (PyStr b)"
  shows "(1 \<le> c \<and> c \<le> 63 \<longrightarrow>
            remix_dna (PyStr a) (PyStr b) c = Inr (take (nat c) a @ drop (nat c) b)
            \<and> length (take (nat c) a @ drop (nat c) b) = 64
            \<and> (\<forall>i. i < 64 \<longrightarrow>
                  (take (nat c) a @ drop (nat c) b) ! i = (if int i < c then a ! i else b ! i)))
       \<and> (\<not> (1 \<le> c \<and> c \<le> 63) \<longrightarrow>
            remix_dna (PyStr a) (PyStr b) c = remix_dna (PyStr a) (PyStr b) 32)"
proof -
  have la: "length a = 64" and lb: "length b = 64"
    using assms by (simp_all only: valid_length)
  show ?thesis
  proof (intro conjI impI allI)
    assume c: "1 \<le> c \<and> c \<le> 63"
    then show "remix_dna (PyStr a) (PyStr b) c = Inr (take (nat c) a @ drop (nat c) b)"
      by (simp add: remix_dna_valid[OF assms])
  next
    assume c: "1 \<le> c \<and> c \<le> 63"
    then have "nat c \<le> 64" by linarith
    then show "length (take (nat c) a @ drop (nat c) b) = 64"
      using la lb by simp
  next
    fix i :: nat
    assume c: "1 \<le> c \<and> c \<le> 63" and i: "i < 64"
    have n: "nat c \<le> length a" using c la by linarith
    have i': "i < length a" using i la by simp
    have "(take (nat c) a @ drop (nat c) b) ! i = (if i < nat c then a ! i else b ! i)"
      by (rule splice_nth[OF n _ i']) (simp add: la lb)
    moreover have "(i < nat c) = (int i < c)" using c by linarith
    ultimately show "(take (nat c) a @ drop (nat c) b) ! i = (if int i < c then a ! i else b ! i)"
      by simp
  next
    assume "\<not> (1 \<le> c \<and> c \<le> 63)"
    then have "c < 1 \<or> 64 \<le> c" by linarith
    then show "remix_dna (PyStr a) (PyStr b) c = remix_dna (PyStr a) (PyStr b) 32"
      by (simp add: remix_dna_valid[OF assms])
  qed
qed

theorem remix_dna_crossover_witness:
  "remix_dna (PyStr ''1111111111111111111111111111111111111111111111111111111111111111'')
             (PyStr ''2222222222222222222222222222222222222222222222222222222222222222'') 32
     = Inr ''1111111111111111111111111111111122222222222222222222222222222222''
   \<and> remix_dna (PyStr ''1111111111111111111111111111111111111111111111111111111111111111'')
               (PyStr ''2222222222222222222222222222222222222222222222222222222222222222'') 100
     = remix_dna (PyStr ''1111111111111111111111111111111111111111111111111111111111111111'')
                 (PyStr ''2222222222222222222222222222222222222222222222222222222222222222'') 32"
proof -
  let ?a = "''1111111111111111111111111111111111111111111111111111111111111111''"
  let ?b = "''2222222222222222222222222222222222222222222222222222222222222222''"
  have a: "validate_dna (PyStr ?a)" by code_simp
  have b: "validate_dna (PyStr ?b)" by code_simp
  have t: "take (nat 32) ?a @ drop (nat 32) ?b
           = ''1111111111111111111111111111111122222222222222222222222222222222''"
    by code_simp
  have r: "(1::int) \<le> 32 \<and> (32::int) \<le> 63" by simp
  have o: "\<not> ((1::int) \<le> 100 \<and> (100::int) \<le> 63)" by simp
  have "remix_dna (PyStr ?a) (PyStr ?b) 32 = Inr (take (nat 32) ?a @ drop (nat 32) ?b)"
    by (rule remix_dna_crossover[OF a b, of 32, THEN conjunct1, THEN mp, OF r, THEN conjunct1])
  moreover have "remix_dna (PyStr ?a) (PyStr ?b) 100 = remix_dna (PyStr ?a) (PyStr ?b) 32"
    by (rule remix_dna_crossover[OF a b, of 100, THEN conjunct2, THEN mp, OF o])
  ultimately show ?thesis by (simp only: t)
qed

text \<open>
  C5. The claim: for inputs that pass \<^verbatim>\<open>validate_dna\<close> the remixed string passes it too.
  With \<open>a\<close> the digit 1 followed by 63 zeros, \<open>b\<close> the prefix \<^verbatim>\<open>0x\<close> followed by 62 zeros
  and crossover point 1, both inputs are accepted and the result, \<^verbatim>\<open>1x\<close> followed by 62
  zeros, is rejected.
\<close>

theorem remix_dna_output_rejected:
  "validate_dna (PyStr ''1000000000000000000000000000000000000000000000000000000000000000'')
   \<and> validate_dna (PyStr ''0x00000000000000000000000000000000000000000000000000000000000000'')
   \<and> remix_dna (PyStr ''1000000000000000000000000000000000000000000000000000000000000000'')
                (PyStr ''0x00000000000000000000000000000000000000000000000000000000000000'') 1
       = Inr ''1x00000000000000000000000000000000000000000000000000000000000000''
   \<and> \<not> validate_dna (PyStr ''1x00000000000000000000000000000000000000000000000000000000000000'')"
  by code_simp


theorem remix_dna_output_rejected_witness:
  "remix_dna (PyStr ''1000000000000000000000000000000000000000000000000000000000000000'')
             (PyStr ''0x00000000000000000000000000000000000000000000000000000000000000'') 1
     = Inr ''1x00000000000000000000000000000000000000000000000000000000000000''"
  by (rule remix_dna_output_rejected[THEN conjunct2, THEN conjunct2, THEN conjunct1])


section \<open>Properties of \<^verbatim>\<open>mutate_dna\<close>\<close>

lemma random_value_nonneg: "0 \<le> random_value u"
  unfolding random_value_def by (rule divide_nonneg_nonneg, rule of_nat_0_le_iff, simp)

lemma random_value_less_1: "random_value u < 1"
proof -
  have "unat u < 2 ^ 53" using unsigned_less[of u] by simp
  then have "(of_nat (unat u) :: rat) < of_nat (2 ^ 53)" by (simp only: of_nat_less_iff)
  then have "(of_nat (unat u) :: rat) < 2 ^ 53" by simp
  then show ?thesis unfolding random_value_def by (subst divide_less_eq_1_pos) simp_all
qed

lemma hex_chars_nth: "is_lower_hex (hex_chars ! unat (i :: 4 word))"
proof -
  have "unat i < 16" using unsigned_less[of i] by simp
  then have "unat i < length hex_chars" by (simp add: hex_chars_def)
  then have "hex_chars ! unat i \<in> set hex_chars" by (rule nth_mem)
  then show ?thesis by (simp only: is_lower_hex_def hex_chars_def)
qed

text \<open>The loop returns one character for each character it is given.\<close>

lemma mutate_loop_length: "length (fst (mutate_loop random choice rate cs s)) = length cs"
  by (induction cs arbitrary: s) (simp_all add: Let_def case_prod_beta)

text \<open>When no draw is below the rate, no position is replaced.\<close>

lemma mutate_loop_unchanged:
  assumes "\<And>u. \<not> float_lt (random_value u) rate"
  shows "fst (mutate_loop random choice rate cs s) = cs"
  using assms by (induction cs arbitrary: s) (simp_all add: Let_def case_prod_beta)

text \<open>Every character of the result is the character it replaces or one of \<^verbatim>\<open>hex_chars\<close>.\<close>

lemma mutate_loop_chars:
  "list_all2 (\<lambda>c r. r = c \<or> is_lower_hex r) cs (fst (mutate_loop random choice rate cs s))"
  by (induction cs arbitrary: s) (simp_all add: Let_def case_prod_beta hex_chars_nth)

lemma mutate_loop_lower_hex:
  assumes "list_all is_lower_hex cs"
  shows "list_all is_lower_hex (fst (mutate_loop random choice rate cs s))"
  using assms by (induction cs arbitrary: s) (simp_all add: Let_def case_prod_beta hex_chars_nth)

text \<open>
  With mutation rate 0.0 an accepted identifier comes back unchanged, whatever the random
  source draws.
\<close>

lemma mutate_dna_rate_zero:
  assumes "validate_dna (PyStr a)"
  shows "\<exists>s'. mutate_dna random choice (PyStr a) (Finite 0) s = Inr (a, s')"
proof -
  have "\<And>u. \<not> float_lt (random_value u) (Finite 0)"
    using random_value_nonneg by (simp add: not_less)
  then have "fst (mutate_loop random choice (Finite 0) a s) = a"
    by (rule mutate_loop_unchanged)
  then show ?thesis
    using assms by (cases "mutate_loop random choice (Finite 0) a s") (simp add: mutate_dna_def)
qed

text \<open>
  An identifier of the documented format is mutated into one of the documented format, for
  every rate and every outcome of the random source.
\<close>

lemma mutate_dna_well_formed:
  assumes "well_formed_dna a"
  shows "\<exists>r s'. mutate_dna random choice (PyStr a) rate s = Inr (r, s') \<and> well_formed_dna r"
proof -
  obtain r s' where m: "mutate_loop random choice rate a s = (r, s')"
    by (cases "mutate_loop random choice rate a s")
  have "length r = length a" using mutate_loop_length[of random choice rate a s] m by simp
  moreover have "list_all is_lower_hex r"
    using mutate_loop_lower_hex[of a random choice rate s] assms m
    by (simp add: well_formed_dna_def)
  ultimately have "well_formed_dna r" using assms by (simp add: well_formed_dna_def)
  then show ?thesis
    using m validate_well_formed[OF assms] by (simp add: mutate_dna_def)
qed

text \<open>
  C8. \<^verbatim>\<open>remix_dna\<close> and \<^verbatim>\<open>mutate_dna\<close> raise exactly when one of their identifier
  arguments fails \<^verbatim>\<open>validate_dna\<close>; what they raise is the \<^verbatim>\<open>ValueError\<close> for an invalid
  format, and it is the result the caller gets.
\<close>

theorem invalid_format_error_iff:
  "(isl (remix_dna a b c) \<longleftrightarrow> \<not> validate_dna a \<or> \<not> validate_dna b)
   \<and> (isl (mutate_dna random choice d rate s) \<longleftrightarrow> \<not> validate_dna d)
   \<and> (isl (remix_dna a b c) \<longrightarrow> remix_dna a b c = Inl (ValueError ''Invalid DNA format''))
   \<and> (isl (mutate_dna random choice d rate s) \<longrightarrow>
        mutate_dna random choice d rate s = Inl (ValueError ''Invalid DNA format''))"
  by (simp add: remix_dna_def mutate_dna_def Let_def del: validate_dna.simps)

theorem invalid_format_error_iff_witness:
  "remix_dna (PyStr ''not-hex'')
             (PyStr ''2222222222222222222222222222222222222222222222222222222222222222'') 32
     = Inl (ValueError ''Invalid DNA format'')
   \<and> \<not> isl (remix_dna (PyStr ''1111111111111111111111111111111111111111111111111111111111111111'')
                     (PyStr ''2222222222222222222222222222222222222222222222222222222222222222'') 32)
   \<and> mutate_dna (\<lambda>s::nat. (word_of_nat s, s + 1)) (\<lambda>s. (word_of_nat s, s + 1))
        (PyStr ''not-hex'') (Finite (1 / 10)) 0
     = Inl (ValueError ''Invalid DNA format'')
   \<and> \<not> isl (mutate_dna (\<lambda>s::nat. (word_of_nat s, s + 1)) (\<lambda>s. (word_of_nat s, s + 1))
        (PyStr ''1111111111111111111111111111111111111111111111111111111111111111'')
        (Finite (1 / 10)) 0)"
proof -
  let ?a = "PyStr ''1111111111111111111111111111111111111111111111111111111111111111''"
  let ?b = "PyStr ''2222222222222222222222222222222222222222222222222222222222222222''"
  let ?n = "PyStr ''not-hex''"
  let ?random = "\<lambda>s::nat. (word_of_nat s :: 53 word, s + 1)"
  let ?choice = "\<lambda>s::nat. (word_of_nat s :: 4 word, s + 1)"
  have a: "validate_dna ?a" by code_simp
  have b: "validate_dna ?b" by code_simp
  have n: "\<not> validate_dna ?n" by code_simp
  note t1 = invalid_format_error_iff[where a = ?n and b = ?b and c = 32 and random = ?random
      and choice = ?choice and d = ?n and rate = "Finite (1 / 10)" and s = 0]
  note t2 = invalid_format_error_iff[where a = ?a and b = ?b and c = 32 and random = ?random
      and choice = ?choice and d = ?a and rate = "Finite (1 / 10)" and s = 0]
  have 1: "remix_dna ?n ?b 32 = Inl (ValueError ''Invalid DNA format'')"
    using t1 n by blast
  have 2: "\<not> isl (remix_dna ?a ?b 32)"
    using t2 a b by blast
  have 3: "mutate_dna ?random ?choice ?n (Finite (1 / 10)) 0 = Inl (ValueError ''Invalid DNA format'')"
    using t1 n by blast
  have 4: "\<not> isl (mutate_dna ?random ?choice ?a (Finite (1 / 10)) 0)"
    using t2 a by blast
  from 1 2 3 4 show ?thesis by blast
qed

text \<open>
  C9. The claim: for an accepted identifier, mutation rate 0.0 returns it unchanged, and for
  every rate and every outcome of the random source the result is a string of 64
  hexadecimal digits. The first half holds (\<open>mutate_dna_rate_zero\<close>); the second fails on
  the accepted string \<^verbatim>\<open>0x\<close> followed by 62 zeros, which comes back unchanged at rate 0.0
  with its \<^verbatim>\<open>x\<close>, for every random source.
\<close>

theorem mutate_dna_returns_non_hex:
  "validate_dna (PyStr ''0x00000000000000000000000000000000000000000000000000000000000000'')
   \<and> (\<exists>s'. mutate_dna random choice
             (PyStr ''0x00000000000000000000000000000000000000000000000000000000000000'')
             (Finite 0) s
           = Inr (''0x00000000000000000000000000000000000000000000000000000000000000'', s'))
   \<and> \<not> well_formed_dna ''0x00000000000000000000000000000000000000000000000000000000000000''"
proof -
  have v: "validate_dna (PyStr ''0x00000000000000000000000000000000000000000000000000000000000000'')"
    by code_simp
  have w: "\<not> well_formed_dna ''0x00000000000000000000000000000000000000000000000000000000000000''"
    by code_simp
  show ?thesis by (intro conjI v w mutate_dna_rate_zero[OF v])
qed

theorem mutate_dna_returns_non_hex_witness:
  "\<exists>s'. mutate_dna (\<lambda>s::nat. (word_of_nat s, s + 1)) (\<lambda>s. (word_of_nat s, s + 1))
           (PyStr ''0x00000000000000000000000000000000000000000000000000000000000000'')
           (Finite 0) 0
         = Inr (''0x00000000000000000000000000000000000000000000000000000000000000'', s')"
  by (rule mutate_dna_returns_non_hex[THEN conjunct2, THEN conjunct1])


section \<open>Properties of \<^verbatim>\<open>generate_dna\<close> and \<^verbatim>\<open>generate_persona_dna\<close>\<close>


lemma take_64_hexdigest: "take 64 (hexdigest h) = hexdigest h"
  by (simp add: hexdigest_def)

text \<open>
  The keys of the record are written in sorted order, whatever the order in which the
  code lists them.
\<close>

lemma generate_dna_sorted_keys:
  "sort_key fst [(''prompt'', a :: json), (''temperature'', b), (''top_p'', c), (''model'', d),
                 (''version'', e)]
   = [(''model'', d), (''prompt'', a), (''temperature'', b), (''top_p'', c), (''version'', e)]"
  by code_simp


text \<open>
  \<^verbatim>\<open>json.dumps\<close> has nothing to raise on the record of \<^verbatim>\<open>generate_dna\<close>, a dict of strings
  and floats, and writes it as this one string.
\<close>

lemma generate_dna_json:
  "json_dumps float_repr depth
     (JDict [(''prompt'', JStr prompt), (''temperature'', JFloat temperature),
             (''top_p'', JFloat top_p), (''model'', JStr model), (''version'', JStr ''1.0'')])
   = Inr (''{'' @ encode_basestring_ascii ''model'' @ '': '' @ encode_basestring_ascii model
          @ '', '' @ encode_basestring_ascii ''prompt'' @ '': '' @ encode_basestring_ascii prompt
          @ '', '' @ encode_basestring_ascii ''temperature'' @ '': ''
                   @ json_float float_repr temperature
          @ '', '' @ encode_basestring_ascii ''top_p'' @ '': '' @ json_float float_repr top_p
          @ '', '' @ encode_basestring_ascii ''version'' @ '': '' @ encode_basestring_ascii ''1.0''
          @ ''}'')"
  by (simp add: json_dumps_def generate_dna_sorted_keys del: sort_key_simps)

text \<open>
  C1. \<^verbatim>\<open>generate_dna\<close> returns, and what it returns is the digest of one string that is
  written from the prompt, the temperature, top_p and the model, and from nothing else:
  so two invocations with identical arguments return the identical identifier, whatever
  the state of the interpreter (here, its recursion limit) at either invocation.
\<close>

theorem generate_dna_deterministic:
  "generate_dna sha256 float_repr depth prompt temperature top_p model
     = Inr (hexdigest (sha256 (utf8_encode
         (''{'' @ encode_basestring_ascii ''model'' @ '': '' @ encode_basestring_ascii model
          @ '', '' @ encode_basestring_ascii ''prompt'' @ '': '' @ encode_basestring_ascii prompt
          @ '', '' @ encode_basestring_ascii ''temperature'' @ '': ''
                   @ json_float float_repr temperature
          @ '', '' @ encode_basestring_ascii ''top_p'' @ '': '' @ json_float float_repr top_p
          @ '', '' @ encode_basestring_ascii ''version'' @ '': '' @ encode_basestring_ascii ''1.0''
          @ ''}''))))
   \<and> generate_dna sha256 float_repr depth' prompt temperature top_p model
     = generate_dna sha256 float_repr depth prompt temperature top_p model"
  by (simp add: generate_dna_def generate_dna_json take_64_hexdigest
        del: json_encode.simps)

text \<open>The two zeros are written differently, so they give different strings to hash.\<close>

lemma json_float_zeros: "json_float float_repr (Finite 0) \<noteq> json_float float_repr NegZero"
  by simp

subsection \<open>When \<^verbatim>\<open>json.dumps\<close> raises\<close>

lemma collect_isl: "isl (collect rs) \<longleftrightarrow> (\<exists>r\<in>set rs. isl r)"
  by (induction rs rule: collect.induct) (auto split: sum.splits)

lemma isl_case_sum: "isl (case r of Inl e \<Rightarrow> Inl e | Inr x \<Rightarrow> Inr (f x)) = isl r"
  by (cases r) simp_all

text \<open>The encoder raises exactly on the values that are not serialisable.\<close>

lemma json_encode_isl:
  "isl (json_encode float_repr depth obj) \<longleftrightarrow> \<not> json_serializable depth obj"
proof (induction float_repr depth obj rule: json_encode.induct)
  case (3 float_repr depth i)
  then show ?case by (simp add: int_repr_def not_less)
next
  case (6 float_repr depth xs)
  show ?case
  proof (cases "depth = 0")
    case True
    then show ?thesis by simp
  next
    case False
    then show ?thesis
      using "6.IH" by (simp add: isl_case_sum collect_isl list_all_iff)
  qed
next
  case (7 float_repr depth items)
  show ?case
  proof (cases "depth = 0")
    case True
    then show ?thesis by simp
  next
    case False
    then show ?thesis
      using "7.IH" by (simp add: isl_case_sum collect_isl list_all_iff)
  qed
qed simp_all

lemma generate_persona_dna_record_serializable:
  "json_serializable (Suc depth)
     (JDict [(''persona'', JStr persona_name), (''traits'', JDict traits),
             (''type'', JStr ''persona_dna''), (''version'', JStr ''1.0'')])
   = json_serializable depth (JDict traits)"
  by simp

text \<open>
  \<^verbatim>\<open>generate_persona_dna\<close> returns the digest of what \<^verbatim>\<open>json.dumps\<close> writes, and raises
  what \<^verbatim>\<open>json.dumps\<close> raises.
\<close>

lemma generate_persona_dna_result:
  "generate_persona_dna sha256 float_repr depth persona_name traits
   = (case json_dumps float_repr depth
             (JDict [(''persona'', JStr persona_name), (''traits'', JDict traits),
                     (''type'', JStr ''persona_dna''), (''version'', JStr ''1.0'')]) of
        Inl e \<Rightarrow> Inl e
      | Inr json_str \<Rightarrow> Inr (hexdigest (sha256 (utf8_encode json_str))))"
  by (simp add: generate_persona_dna_def take_64_hexdigest del: json_encode.simps
        split: sum.splits)

lemma generate_persona_dna_isl:
  "isl (generate_persona_dna sha256 float_repr depth persona_name traits)
   \<longleftrightarrow> \<not> json_serializable depth (JDict traits)"
proof -
  have "isl (generate_persona_dna sha256 float_repr depth persona_name traits)
        = isl (json_dumps float_repr depth
             (JDict [(''persona'', JStr persona_name), (''traits'', JDict traits),
                     (''type'', JStr ''persona_dna''), (''version'', JStr ''1.0'')]))"
    by (simp only: generate_persona_dna_result isl_case_sum)
  then show ?thesis
    by (simp only: json_dumps_def json_encode_isl generate_persona_dna_record_serializable)
qed





text \<open>
  The same on an int of more than 4300 digits, such as \<open>10 ^ 5000\<close>, where the conversion to
  decimal raises \<^verbatim>\<open>ValueError\<close>.
\<close>

lemma generate_persona_dna_raises_on_big_int:
  assumes "int_max_str_digits \<le> n"
  shows "isl (generate_persona_dna sha256 float_repr depth persona_name [(k, JInt (10 ^ n))])"
proof -
  have "(10::int) ^ int_max_str_digits \<le> 10 ^ n"
    using assms by (intro power_increasing) simp_all
  then have "\<not> json_serializable depth (JDict [(k, JInt (10 ^ n))])"
    by (simp add: not_less)
  then show ?thesis unfolding generate_persona_dna_isl .
qed


section \<open>Properties of the floating-point model\<close>

lemma pow2_powi: "pow2 e = 2 powi e"
  by (simp add: pow2_def power_int_def field_simps)

lemma pow2_pos: "0 < pow2 e"
  by (simp add: pow2_powi)

lemma pow2_add: "pow2 (a + b) = pow2 a * pow2 b"
  by (simp add: pow2_powi power_int_add)



lemma pow2_nat: "pow2 (int n) = 2 ^ n"
  by (simp add: pow2_def)

lemma pow2_neg_nat: "pow2 (- int n) = 1 / 2 ^ n"
  by (simp add: pow2_powi power_int_minus field_simps)

lemma inverse_less_swap: "0 < x \<Longrightarrow> 0 < p \<Longrightarrow> p < 1 / x \<Longrightarrow> x < 1 / (p::rat)"
  by (simp add: field_simps)

lemma inverse_le_swap: "0 < x \<Longrightarrow> 0 < p \<Longrightarrow> 1 / x \<le> p \<Longrightarrow> 1 / p \<le> (x::rat)"
  by (simp add: field_simps)

lemma bit_length_bounds:
  "0 < n \<Longrightarrow> 2 ^ (bit_length n - 1) \<le> n \<and> n < 2 ^ bit_length n"
proof (induction n rule: bit_length.induct)
  case (1 n)
  show ?case
  proof (cases "n div 2 = 0")
    case True
    then have "n = 1" using "1.prems" by presburger
    then show ?thesis by (simp add: bit_length.simps)
  next
    case False
    then have pos: "0 < n div 2" using "1.prems" by presburger
    have n: "\<not> n \<le> 0" using "1.prems" by simp
    have ih: "2 ^ (bit_length (n div 2) - 1) \<le> n div 2 \<and> n div 2 < 2 ^ bit_length (n div 2)"
      using "1.IH"[OF n pos] .
    have b: "bit_length n = Suc (bit_length (n div 2))"
      using n by (subst bit_length.simps) simp
    have bpos: "0 < bit_length (n div 2)"
      using pos by (subst bit_length.simps) simp
    then have e: "(2::int) ^ bit_length (n div 2) = 2 * 2 ^ (bit_length (n div 2) - 1)"
      by (cases "bit_length (n div 2)") simp_all
    have "2 * (n div 2) \<le> n" "n < 2 * (n div 2) + 2" by presburger+
    then show ?thesis using ih e by (simp add: b)
  qed
qed

lemma binade_bounds:
  assumes "0 < x"
  shows "pow2 (binade x) \<le> x \<and> x < pow2 (binade x + 1)"
proof (cases "1 \<le> x")
  case True
  let ?f = "\<lfloor>x\<rfloor>"
  have f: "0 < ?f" using True by simp
  note bb = bit_length_bounds[OF f]
  have bpos: "0 < bit_length ?f" using f by (subst bit_length.simps) simp
  have e: "binade x = int (bit_length ?f - 1)"
    using True bpos by (simp add: binade_def)
  have e1: "binade x + 1 = int (bit_length ?f)"
    using True bpos by (simp add: binade_def)
  have "(of_int (2 ^ (bit_length ?f - 1)) :: rat) \<le> of_int ?f"
    using bb by (simp only: of_int_le_iff)
  also have "\<dots> \<le> x" by simp
  finally have "(2 ^ (bit_length ?f - 1) :: rat) \<le> x" by simp
  moreover have "pow2 (binade x) = 2 ^ (bit_length ?f - 1)"
    by (simp only: e pow2_nat)
  ultimately have lo: "pow2 (binade x) \<le> x" by simp
  have "?f + 1 \<le> 2 ^ bit_length ?f" using bb by simp
  then have "(of_int (?f + 1) :: rat) \<le> of_int (2 ^ bit_length ?f)"
    by (simp only: of_int_le_iff)
  moreover have "x < of_int (?f + 1)" by linarith
  ultimately have "x < (2 ^ bit_length ?f :: rat)" by simp
  moreover have "pow2 (binade x + 1) = 2 ^ bit_length ?f"
    by (simp only: e1 pow2_nat)
  ultimately have hi: "x < pow2 (binade x + 1)" by simp
  show ?thesis using lo hi by simp
next
  case False
  let ?m = "\<lceil>1 / x\<rceil> - 1"
  have y: "1 < 1 / x" using False assms by simp
  have m: "0 < ?m" using y by linarith
  note bb = bit_length_bounds[OF m]
  have bpos: "0 < bit_length ?m" using m by (subst bit_length.simps) simp
  have e: "binade x = - int (bit_length ?m)"
    using False by (simp add: binade_def)
  have e1: "binade x + 1 = - int (bit_length ?m - 1)"
    using False bpos by (simp add: binade_def)
  have "(of_int ?m :: rat) < 1 / x" by linarith
  moreover have "(of_int (2 ^ (bit_length ?m - 1)) :: rat) \<le> of_int ?m"
    using bb by (simp only: of_int_le_iff)
  ultimately have lt: "(2 ^ (bit_length ?m - 1) :: rat) < 1 / x" by simp
  have "x < 1 / 2 ^ (bit_length ?m - 1)"
    by (rule inverse_less_swap[OF assms _ lt]) simp
  moreover have "pow2 (binade x + 1) = 1 / 2 ^ (bit_length ?m - 1)"
    by (simp only: e1 pow2_neg_nat)
  ultimately have hi: "x < pow2 (binade x + 1)" by (simp only:)
  have c1: "1 / x \<le> of_int (?m + 1)" by simp
  have "?m + 1 \<le> 2 ^ bit_length ?m" using bb by simp
  then have c2: "(of_int (?m + 1) :: rat) \<le> of_int (2 ^ bit_length ?m)"
    by (simp only: of_int_le_iff)
  have le: "1 / x \<le> (2 ^ bit_length ?m :: rat)"
    using order_trans[OF c1 c2] by simp
  have "1 / 2 ^ bit_length ?m \<le> x"
    by (rule inverse_le_swap[OF assms _ le]) simp
  moreover have "pow2 (binade x) = 1 / 2 ^ bit_length ?m"
    by (simp only: e pow2_neg_nat)
  ultimately have lo: "pow2 (binade x) \<le> x" by (simp only:)
  show ?thesis using lo hi by simp
qed

lemma round_half_even_diff: "\<bar>of_int (round_half_even y) - y\<bar> \<le> 1 / 2"
proof -
  have "of_int \<lfloor>y\<rfloor> \<le> y" "y < of_int \<lfloor>y\<rfloor> + 1" by linarith+
  then show ?thesis
    by (auto simp: round_half_even_def Let_def abs_le_iff)
qed


lemma round_half_even_unique:
  assumes "\<bar>y - of_int n\<bar> < 1 / 2"
  shows "round_half_even y = n"
proof -
  have "\<bar>(of_int (round_half_even y) :: rat) - of_int n\<bar> < 1"
    using round_half_even_diff[of y] assms by linarith
  then have "\<bar>(of_int (round_half_even y - n) :: rat)\<bar> < of_int 1" by simp
  then have "\<bar>round_half_even y - n\<bar> < 1"
    by (simp only: of_int_abs[symmetric] of_int_less_iff)
  then show ?thesis by linarith
qed



text \<open>A positive number is rounded to a multiple of the unit in the last place of its binade.\<close>

lemma fl_pos:
  "0 < x \<Longrightarrow>
     fl x = of_int (round_half_even (x / pow2 (binade x - 52))) * pow2 (binade x - 52)"
  by (simp add: fl_def Let_def)

lemma fl_zero: "fl 0 = 0"
  by (simp add: fl_def)

text \<open>The rounding error is at most half a unit in the last place.\<close>

lemma fl_rel_error:
  assumes "0 < x"
  shows "\<bar>fl x - x\<bar> \<le> x / 2 ^ 53"
proof -
  let ?u = "pow2 (binade x - 52)"
  let ?n = "round_half_even (x / ?u)"
  have u: "0 < ?u" by (rule pow2_pos)
  have "\<bar>of_int ?n - x / ?u\<bar> \<le> 1 / 2" by (rule round_half_even_diff)
  then have "\<bar>of_int ?n - x / ?u\<bar> * ?u \<le> 1 / 2 * ?u"
    using u by (intro mult_right_mono) simp_all
  moreover have "(of_int ?n - x / ?u) * ?u = of_int ?n * ?u - x"
    using u by (simp add: field_simps)
  then have "\<bar>of_int ?n - x / ?u\<bar> * ?u = \<bar>of_int ?n * ?u - x\<bar>"
    using abs_mult_pos[OF less_imp_le[OF u], of "of_int ?n - x / ?u"] by simp
  ultimately have e: "\<bar>fl x - x\<bar> \<le> ?u / 2"
    using assms by (simp add: fl_pos)
  have "pow2 (binade x) = pow2 (binade x - 52) * pow2 52"
    using pow2_add[of "binade x - 52" 52] by simp
  also have "pow2 52 = 2 ^ 52" using pow2_nat[of 52] by simp
  finally have "?u = pow2 (binade x) / 2 ^ 52" by simp
  moreover have "pow2 (binade x) \<le> x" using binade_bounds[OF assms] by simp
  ultimately have "?u \<le> x / 2 ^ 52" by (simp add: divide_right_mono)
  then have "?u / 2 \<le> x / 2 ^ 53" by simp
  then show ?thesis using e by linarith
qed




section \<open>Properties of \<^verbatim>\<open>decode_dna\<close>\<close>

text \<open>A rounded positive number is within a thousandth of the number.\<close>

lemma fl_within:
  assumes "0 < x"
  shows "x * (999 / 1000) \<le> fl x \<and> fl x \<le> x * (1001 / 1000)"
proof -
  have "x / 2 ^ 53 \<le> x / 1000"
    using assms by (intro divide_left_mono) simp_all
  then have "\<bar>fl x - x\<bar> \<le> x / 1000"
    using fl_rel_error[OF assms] by linarith
  then have "fl x - x \<le> x / 1000" and "- (fl x - x) \<le> x / 1000"
    by (rule abs_le_D1, rule abs_le_D2)
  then show ?thesis by (intro conjI) linarith+
qed

text \<open>
  The estimate \<^verbatim>\<open>round(0.1 + k * 0.1, 1)\<close> is the double nearest to \<open>(k + 1) / 10\<close>, for
  \<open>k\<close> from 0 to 19: the rounding errors of the product and the sum are far below the
  half unit of the first decimal.
\<close>

lemma estimate_rounded:
  assumes "0 \<le> k" and "k < 20"
  shows "py_round (fl (fl (1 / 10) + fl (of_int k * fl (1 / 10)))) 1 = fl (of_int (k + 1) / 10)"
proof -
  define c where "c = fl (1 / 10)"
  define p where "p = fl (of_int k * c)"
  define s where "s = fl (c + p)"
  define r :: rat where "r = of_int k"
  have r: "0 \<le> r" "r \<le> 19" using assms by (simp_all add: r_def)
  have c: "999 / 10000 \<le> c" "c \<le> 1001 / 10000"
    using fl_within[of "1 / 10"] by (simp_all add: c_def)
  have cpos: "0 < c" using c by linarith
  have p: "r * (999 / 10000) * (999 / 1000) \<le> p \<and> p \<le> r * (1001 / 10000) * (1001 / 1000)"
  proof (cases "k = 0")
    case True
    then show ?thesis by (simp add: p_def r_def fl_zero)
  next
    case False
    then have rpos: "0 < r" using assms by (simp add: r_def)
    then have kc: "0 < r * c" using cpos by simp
    have "r * (999 / 10000) \<le> r * c" "r * c \<le> r * (1001 / 10000)"
      using c rpos by (simp_all add: mult_left_mono)
    moreover have "r * c * (999 / 1000) \<le> p \<and> p \<le> r * c * (1001 / 1000)"
      using fl_within[OF kc] by (simp only: p_def r_def)
    ultimately show ?thesis by linarith
  qed
  have "0 \<le> r * (999 / 10000) * (999 / 1000)" using r by simp
  then have cp: "0 < c + p" using cpos p by linarith
  have s: "(c + p) * (999 / 1000) \<le> s \<and> s \<le> (c + p) * (1001 / 1000)"
    using fl_within[OF cp] by (simp only: s_def)
  have k1: "(of_int (k + 1) :: rat) = r + 1" by (simp add: r_def)
  have p_lo: "r * (998001 / 10000000) \<le> p" and p_up: "p \<le> r * (1002001 / 10000000)"
    using p by simp_all
  have s_lo: "c * (999 / 1000) + p * (999 / 1000) \<le> s"
    and s_up: "s \<le> c * (1001 / 1000) + p * (1001 / 1000)"
    using s by (simp_all add: distrib_right)
  have up: "s * 10 - (r + 1) < 1 / 2" using s_up p_up c r by linarith
  have lo: "- (1 / 2) < s * 10 - (r + 1)" using s_lo p_lo c r by linarith
  have "\<bar>s * 10 - of_int (k + 1)\<bar> < 1 / 2"
    unfolding k1 abs_less_iff using up lo by (intro conjI) linarith+
  then have "round_half_even (s * 10 ^ 1) = k + 1"
    using round_half_even_unique[of "s * 10" "k + 1"] by simp
  then have "py_round s 1 = fl (of_int (k + 1) / 10)"
    by (simp add: py_round_def)
  then show ?thesis
    by (simp only: s_def p_def c_def)
qed

lemma decode_dna_nonempty:
  "decode_dna (c # cs) =
     Inr \<lparr>e_temperature =
            fl (of_int (sum_list (map (\<lambda>c. of_char c :: int) (c # cs)) mod 20 + 1) / 10),
          e_top_p =
            fl (of_int (sum_list (map (\<lambda>c. of_char c :: int) (c # cs)) mod 9 + 1) / 10),
          e_model = (if c = CHR ''0'' then ''dolphin-phi:latest''
                     else if c = CHR ''1'' then ''llama2:latest''
                     else if c = CHR ''2'' then ''mistral:latest''
                     else if c = CHR ''3'' then ''gpt-4''
                     else ''dolphin-phi:latest''),
          e_dna = c # cs,
          e_note = ''Parameters estimated from DNA pattern''\<rparr>"
proof -
  let ?S = "sum_list (map (\<lambda>c. of_char c :: int) (c # cs))"
  have t: "py_round (fl (fl (1 / 10) + fl (of_int (?S mod 20) * fl (1 / 10)))) 1
           = fl (of_int (?S mod 20 + 1) / 10)"
    by (rule estimate_rounded) simp_all
  have "?S mod 9 < 9" by simp
  then have "?S mod 9 < 20" by linarith
  then have q: "py_round (fl (fl (1 / 10) + fl (of_int (?S mod 9) * fl (1 / 10)))) 1
           = fl (of_int (?S mod 9 + 1) / 10)"
    by (intro estimate_rounded) simp_all
  have m: "(case map_of model_map c of None \<Rightarrow> ''dolphin-phi:latest'' | Some model \<Rightarrow> model)
           = (if c = CHR ''0'' then ''dolphin-phi:latest''
              else if c = CHR ''1'' then ''llama2:latest''
              else if c = CHR ''2'' then ''mistral:latest''
              else if c = CHR ''3'' then ''gpt-4''
              else ''dolphin-phi:latest'')"
    by (simp add: model_map_def)
  show ?thesis
    by (simp only: decode_dna_def Let_def list.case t q m)
qed

text \<open>
  C7. For an identifier \<open>d\<close> that passes \<^verbatim>\<open>validate_dna\<close>, \<^verbatim>\<open>decode_dna\<close> returns, and what
  it returns is a function of \<open>d\<close> alone: with \<open>S\<close> the sum of the character codes of \<open>d\<close>, the
  estimated temperature is \<open>0.1 + (S mod 20) * 0.1\<close> as a number of one decimal, one of the
  twenty values \<open>0.1, ..., 2.0\<close>, the estimated top_p is \<open>0.1 + (S mod 9) * 0.1\<close>, one of the nine
  values \<open>0.1, ..., 0.9\<close> (each the double nearest to that decimal number), and the model
  is looked up by the first character of \<open>d\<close>, with \<^verbatim>\<open>dolphin-phi:latest\<close> for a character
  that the table does not have.
\<close>

theorem decode_dna_estimate:
  assumes "validate_dna (PyStr d)"
  shows "let S = sum_list (map (\<lambda>c. of_char c :: int) d) in
         decode_dna d =
           Inr \<lparr>e_temperature = fl (1 / 10 + of_int (S mod 20) * (1 / 10)),
                e_top_p = fl (1 / 10 + of_int (S mod 9) * (1 / 10)),
                e_model = (if hd d = CHR ''0'' then ''dolphin-phi:latest''
                           else if hd d = CHR ''1'' then ''llama2:latest''
                           else if hd d = CHR ''2'' then ''mistral:latest''
                           else if hd d = CHR ''3'' then ''gpt-4''
                           else ''dolphin-phi:latest''),
                e_dna = d,
                e_note = ''Parameters estimated from DNA pattern''\<rparr>
         \<and> d \<noteq> []
         \<and> (\<exists>i. 1 \<le> i \<and> i \<le> 20 \<and> 1 / 10 + of_int (S mod 20) * (1 / 10) = (of_int i :: rat) / 10)
         \<and> (\<exists>i. 1 \<le> i \<and> i \<le> 9 \<and> 1 / 10 + of_int (S mod 9) * (1 / 10) = (of_int i :: rat) / 10)"
proof -
  have "length d = 64" using assms by (simp split: if_splits)
  then obtain c cs where d: "d = c # cs" by (cases d) simp_all
  let ?S = "sum_list (map (\<lambda>c. of_char c :: int) d)"
  have e20: "1 / 10 + of_int (?S mod 20) * (1 / 10) = (of_int (?S mod 20 + 1) :: rat) / 10"
    by (simp add: field_simps)
  have e9: "1 / 10 + of_int (?S mod 9) * (1 / 10) = (of_int (?S mod 9 + 1) :: rat) / 10"
    by (simp add: field_simps)
  have dec: "decode_dna d =
           Inr \<lparr>e_temperature = fl (1 / 10 + of_int (?S mod 20) * (1 / 10)),
                e_top_p = fl (1 / 10 + of_int (?S mod 9) * (1 / 10)),
                e_model = (if hd d = CHR ''0'' then ''dolphin-phi:latest''
                           else if hd d = CHR ''1'' then ''llama2:latest''
                           else if hd d = CHR ''2'' then ''mistral:latest''
                           else if hd d = CHR ''3'' then ''gpt-4''
                           else ''dolphin-phi:latest''),
                e_dna = d,
                e_note = ''Parameters estimated from DNA pattern''\<rparr>"
    unfolding e20 e9 unfolding d list.sel by (rule decode_dna_nonempty)
  have r20: "1 \<le> ?S mod 20 + 1 \<and> ?S mod 20 + 1 \<le> 20" by simp
  have r9: "1 \<le> ?S mod 9 + 1 \<and> ?S mod 9 + 1 \<le> 9" by simp
  have i20: "\<exists>i. 1 \<le> i \<and> i \<le> 20
               \<and> 1 / 10 + of_int (?S mod 20) * (1 / 10) = (of_int i :: rat) / 10"
    using r20 e20 by blast
  have i9: "\<exists>i. 1 \<le> i \<and> i \<le> 9
               \<and> 1 / 10 + of_int (?S mod 9) * (1 / 10) = (of_int i :: rat) / 10"
    using r9 e9 by blast
  have ne: "d \<noteq> []" using d by simp
  show ?thesis unfolding Let_def using dec ne i20 i9 by (intro conjI)
qed

theorem decode_dna_estimate_witness:
  "decode_dna ''aaaaaaaaaaaaaaaaaaaaaaaaaaaaaaaaaaaaaaaaaaaaaaaaaaaaaaaaaaaaaaaa'' =
     Inr \<lparr>e_temperature = fl (1 / 10 + 8 * (1 / 10)),
          e_top_p = fl (1 / 10 + 7 * (1 / 10)),
          e_model = ''dolphin-phi:latest'',
          e_dna = ''aaaaaaaaaaaaaaaaaaaaaaaaaaaaaaaaaaaaaaaaaaaaaaaaaaaaaaaaaaaaaaaa'',
          e_note = ''Parameters estimated from DNA pattern''\<rparr>"
proof -
  let ?d = "''aaaaaaaaaaaaaaaaaaaaaaaaaaaaaaaaaaaaaaaaaaaaaaaaaaaaaaaaaaaaaaaa''"
  have v: "validate_dna (PyStr ?d)" by code_simp
  have s: "sum_list (map (\<lambda>c. of_char c :: int) ?d) = 6208" by code_simp
  have h: "hd ?d = CHR ''a''" by simp
  have m20: "(6208 :: int) mod 20 = 8" and m9: "(6208 :: int) mod 9 = 7" by simp_all
  show ?thesis
    using decode_dna_estimate[OF v, unfolded Let_def s h m20 m9, THEN conjunct1] by simp
qed

text \<open>
  C10. \<^verbatim>\<open>decode_dna\<close> does not validate its argument: it returns an estimate for every
  string but the empty one, also for one that \<^verbatim>\<open>validate_dna\<close> rejects, and on the empty
  string it raises \<^verbatim>\<open>IndexError\<close>, from \<^verbatim>\<open>dna[0]\<close>.
\<close>

theorem decode_dna_empty_raises:
  "decode_dna '''' = Inl (IndexError ''string index out of range'')
   \<and> (isl (decode_dna dna) \<longleftrightarrow> dna = [])
   \<and> \<not> validate_dna (PyStr ''not-hex'')
   \<and> \<not> isl (decode_dna ''not-hex'')"
proof -
  have e: "decode_dna [] = Inl (IndexError ''string index out of range'')"
    by (simp add: decode_dna_def)
  have i: "isl (decode_dna s) \<longleftrightarrow> s = []" for s
  proof (cases s)
    case Nil
    then show ?thesis using e by simp
  next
    case (Cons c cs)
    then show ?thesis by (simp only: decode_dna_nonempty) simp
  qed
  have v: "\<not> validate_dna (PyStr ''not-hex'')" by code_simp
  have n: "\<not> isl (decode_dna ''not-hex'')" unfolding i by simp
  show ?thesis using e i v n by (intro conjI)
qed


section \<open>Properties of \<^verbatim>\<open>analyze_dna_compatibility\<close>\<close>










end
